theory Spec2Isabelle
  imports Complex_Main
begin

section \<open>Conventions\<close>

text \<open>
  The two services are Python. Python floats are modelled as \<^typ>\<open>real\<close> (exact
  arithmetic, no rounding error, no NaN, no infinities), Python ints as \<^typ>\<open>int\<close>,
  strings as \<^typ>\<open>string\<close>, a dict read with \<open>.get(key, default)\<close> as a
  record of optional fields (\<open>None\<close>: the key is absent) or as an association list,
  and every exception that can leave a function as a value \<open>Inl e\<close>. Names are
  the source's; where two classes have a field of the same name, one of the two carries a
  prefix (\<open>trigger_impact\<close>, \<open>jtbd_reasoning\<close>, \<open>calc_patience_multiplier\<close>), and so
  do the keys of the input dicts (\<open>ev_\<close>, \<open>pp_\<close>, \<open>persona_\<close>). The texts the services
  format for display only (justifications and the like) are left out where noted.
\<close>

datatype error = KeyError | TypeError | ValidationError | ApiError | ZeroDivisionError

text \<open>\<open>d.get(k, default)\<close> on a dict kept as an association list.\<close>

definition dict_get :: "('k \<times> 'v) list \<Rightarrow> 'k \<Rightarrow> 'v \<Rightarrow> 'v" where
  "dict_get d k dflt = (case map_of d k of Some v \<Rightarrow> v | None \<Rightarrow> dflt)"

definition opt_get :: "'a option \<Rightarrow> 'a \<Rightarrow> 'a" where
  "opt_get v dflt = (case v of Some x \<Rightarrow> x | None \<Rightarrow> dflt)"


section \<open>Churn calculator (usersim/app/services/churn\_calculator.py)\<close>

datatype PatienceLevel = LOW | MEDIUM | HIGH

record FrustrationTrigger =
  trigger :: string
  threshold :: real
  trigger_impact :: real

text \<open>Of a \<open>VirtualUser\<close> the calculator reads three fields only.\<close>

record VirtualUser =
  patience_level :: PatienceLevel
  frustration_triggers :: "FrustrationTrigger list"
  base_churn_risk :: real

text \<open>One entry of \<open>frustration_events\<close>: a dict with the optional keys "event" and "severity".\<close>

record frustration_event =
  ev_event :: "string option"
  ev_severity :: "real option"

text \<open>The context dict, with the four keys \<open>_parse_ai_adjustments\<close> reads.\<close>

record churn_context =
  time_invested_seconds :: "real option"
  urgency :: "string option"
  alternatives_available :: "bool option"
  failure_count :: "int option"

record event_detail =
  event :: string
  risk_added :: real

record ai_adjustment =
  factor :: string
  adjustment :: real

record ChurnAnalysis =
  base_risk :: real
  frustration_events :: "event_detail list"
  formula_risk :: real
  patience_multiplier :: real
  calculated_risk :: real
  ai_adjustments :: "ai_adjustment list"
  final_churn_probability :: real
  risk_level :: string
  reasoning :: string

definition FRUSTRATION_WEIGHTS :: "(string \<times> real) list" where
  "FRUSTRATION_WEIGHTS =
    [(''long_wait'', 30), (''feature_unavailable'', 25), (''error_encountered'', 20),
     (''retry_required'', 10), (''unexpected_cost'', 15), (''poor_quality'', 20),
     (''lack_of_feedback'', 10), (''driver_cancellation'', 25), (''no_availability'', 30),
     (''redirect_failure'', 20), (''slow_response'', 15), (''payment_failure'', 35),
     (''data_loss'', 40), (''security_concern'', 50)]"

definition PATIENCE_MULTIPLIERS :: "(PatienceLevel \<times> real) list" where
  "PATIENCE_MULTIPLIERS = [(LOW, 2.0), (MEDIUM, 1.5), (HIGH, 1.0)]"

definition RISK_LEVELS :: "(real \<times> real \<times> string) list" where
  "RISK_LEVELS = [(0, 30, ''LOW''), (31, 50, ''MEDIUM''), (51, 75, ''HIGH''), (76, 100, ''CRITICAL'')]"

text \<open>
  The calculator object: the user and the multiplier \<open>__init__\<close> looks up. The weight
  table is an attribute of the class, one dict shared by every calculator; \<open>weights c\<close> is
  the content of that dict as \<open>calculate_churn\<close> finds it.
\<close>

record ChurnCalculator =
  user :: VirtualUser
  calc_patience_multiplier :: real
  weights :: "(string \<times> real) list"

definition ChurnCalculator_init :: "VirtualUser \<Rightarrow> ChurnCalculator" where
  "ChurnCalculator_init virtual_user =
     \<lparr>user = virtual_user,
      calc_patience_multiplier = dict_get PATIENCE_MULTIPLIERS (patience_level virtual_user) 1.5,
      weights = FRUSTRATION_WEIGHTS\<rparr>"

text \<open>
  \<open>add_custom_frustration_weight\<close> writes into the shared dict, so it is a step on the
  table, not on one calculator: every calculator, made before or after, reads the new
  table from then on. \<open>ChurnCalculator_at table\<close> is a calculator read while the shared
  dict holds \<open>table\<close>; \<open>ChurnCalculator_init\<close> above is the case of the built-in table, on
  which no custom weight has been set.
\<close>

definition add_custom_frustration_weight :: "(string \<times> real) list \<Rightarrow> string \<Rightarrow> real \<Rightarrow> (string \<times> real) list" where
  "add_custom_frustration_weight table event_name weight = (event_name, weight) # table"

definition ChurnCalculator_at :: "(string \<times> real) list \<Rightarrow> VirtualUser \<Rightarrow> ChurnCalculator" where
  "ChurnCalculator_at table virtual_user =
     \<lparr>user = virtual_user,
      calc_patience_multiplier = dict_get PATIENCE_MULTIPLIERS (patience_level virtual_user) 1.5,
      weights = table\<rparr>"

text \<open>The first loop of \<open>calculate_churn\<close>: one detail per event, in order.\<close>

definition event_risk :: "ChurnCalculator \<Rightarrow> frustration_event \<Rightarrow> event_detail" where
  "event_risk c e =
     (let event_name = opt_get (ev_event e) '''';
          severity = opt_get (ev_severity e) 1.0;
          base_weight = dict_get (weights c) event_name 15
      in \<lparr>event = event_name, risk_added = base_weight * severity\<rparr>)"

text \<open>
  \<open>any(e["event"] == trigger.trigger for e in frustration_events)\<close>: the generator stops at
  the first match, and \<open>e["event"]\<close> raises KeyError on an event without that key.
\<close>

fun trigger_hit :: "string \<Rightarrow> frustration_event list \<Rightarrow> error + bool" where
  "trigger_hit t [] = Inr False"
| "trigger_hit t (e # es) =
     (case ev_event e of
        None \<Rightarrow> Inl KeyError
      | Some n \<Rightarrow> if n = t then Inr True else trigger_hit t es)"

text \<open>The second loop: the triggers that were hit, each adding its impact once.\<close>

fun trigger_details :: "FrustrationTrigger list \<Rightarrow> frustration_event list \<Rightarrow> error + event_detail list" where
  "trigger_details [] es = Inr []"
| "trigger_details (t # ts) es =
     (case trigger_hit (trigger t) es of
        Inl err \<Rightarrow> Inl err
      | Inr hit \<Rightarrow>
          (case trigger_details ts es of
             Inl err \<Rightarrow> Inl err
           | Inr ds \<Rightarrow>
               Inr (if hit
                    then \<lparr>event = trigger t @ ''_user_specific'', risk_added = trigger_impact t\<rparr> # ds
                    else ds)))"

definition parse_ai_adjustments :: "churn_context \<Rightarrow> real \<Rightarrow> ai_adjustment list" where
  "parse_ai_adjustments context total_adjustment =
     (let time_invested = opt_get (time_invested_seconds context) 0;
          a1 = (if time_invested > 0
                then [\<lparr>factor = ''sunk_cost_effect'',
                       adjustment = min (-10) (- (time_invested / 60) * 3)\<rparr>]
                else []);
          urg = opt_get (urgency context) ''medium'';
          a2 = (if urg = ''high'' then [\<lparr>factor = ''high_urgency'', adjustment = -5\<rparr>]
                else if urg = ''low'' then [\<lparr>factor = ''low_urgency'', adjustment = 10\<rparr>]
                else []);
          has_alternatives = opt_get (alternatives_available context) False;
          a3 = (if has_alternatives then [\<lparr>factor = ''easy_alternatives'', adjustment = 10\<rparr>] else []);
          fc = opt_get (failure_count context) 1;
          a4 = (if fc = 1 then [\<lparr>factor = ''first_failure'', adjustment = -5\<rparr>]
                else if fc \<ge> 3 then [\<lparr>factor = ''repeated_failures'', adjustment = 15\<rparr>]
                else []);
          adjustments = a1 @ a2 @ a3 @ a4;
          accounted_adjustment = sum_list (map adjustment adjustments)
      in if \<bar>total_adjustment - accounted_adjustment\<bar> > 0.1
         then adjustments @ [\<lparr>factor = ''other_context'',
                                adjustment = total_adjustment - accounted_adjustment\<rparr>]
         else adjustments)"

fun risk_level_in :: "(real \<times> real \<times> string) list \<Rightarrow> real \<Rightarrow> string" where
  "risk_level_in [] churn_probability = ''CRITICAL''"
| "risk_level_in ((min_val, max_val, level) # rest) churn_probability =
     (if min_val \<le> churn_probability \<and> churn_probability \<le> max_val then level
      else risk_level_in rest churn_probability)"

definition get_risk_level :: "real \<Rightarrow> string" where
  "get_risk_level churn_probability = risk_level_in RISK_LEVELS churn_probability"

subsection \<open>The reasoning text\<close>

text \<open>\<open>max(events, key=...)\<close>: the first element with the largest key.\<close>

fun max_by_risk :: "event_detail \<Rightarrow> event_detail list \<Rightarrow> event_detail" where
  "max_by_risk best [] = best"
| "max_by_risk best (e # es) = max_by_risk (if risk_added e > risk_added best then e else best) es"

definition is_upper :: "char \<Rightarrow> bool" where
  "is_upper c = (of_char c \<ge> (65::nat) \<and> of_char c \<le> (90::nat))"

definition is_lower :: "char \<Rightarrow> bool" where
  "is_lower c = (of_char c \<ge> (97::nat) \<and> of_char c \<le> (122::nat))"

definition to_lower :: "char \<Rightarrow> char" where
  "to_lower c = (if is_upper c then char_of (of_char c + (32::nat)) else c)"

definition to_upper :: "char \<Rightarrow> char" where
  "to_upper c = (if is_lower c then char_of (of_char c - (32::nat)) else c)"

text \<open>\<open>str.lower()\<close>, on the ASCII letters.\<close>

definition lower :: "string \<Rightarrow> string" where
  "lower s = map to_lower s"

text \<open>\<open>str.title()\<close>: a letter after a non-letter is upper-cased, any other letter lower-cased.\<close>

fun title_from :: "bool \<Rightarrow> string \<Rightarrow> string" where
  "title_from prev_cased [] = []"
| "title_from prev_cased (c # cs) =
     (if prev_cased then to_lower c else to_upper c) # title_from (is_upper c \<or> is_lower c) cs"

definition title :: "string \<Rightarrow> string" where
  "title s = title_from False s"

definition underscores_to_spaces :: "string \<Rightarrow> string" where
  "underscores_to_spaces s = map (\<lambda>c. if c = CHR ''_'' then CHR '' '' else c) s"

definition generate_reasoning :: "real \<Rightarrow> event_detail list \<Rightarrow> ai_adjustment list \<Rightarrow> string" where
  "generate_reasoning final_churn events adjustments =
     (let main_frustration = (case events of [] \<Rightarrow> ''general friction''
                              | e # es \<Rightarrow> event (max_by_risk e es));
          main_factor = (case filter (\<lambda>a. \<bar>adjustment a\<bar> \<ge> 5) adjustments of
                           [] \<Rightarrow> ''user patience''
                         | a # _ \<Rightarrow> factor a)
      in if final_churn < 30
         then ''Low churn risk. User is experiencing '' @ main_frustration @ '' but '' @ main_factor
              @ '' keeps them engaged.''
         else if final_churn < 50
         then ''Medium churn risk. '' @ title (underscores_to_spaces main_frustration)
              @ '' is causing frustration. User will likely try one more alternative before giving up completely.''
         else if final_churn < 75
         then ''High churn risk. Significant frustration from '' @ main_frustration
              @ ''. User is close to abandoning the product entirely. ''
              @ title (underscores_to_spaces main_factor) @ '' is the deciding factor.''
         else ''Critical churn risk. Multiple failures including '' @ main_frustration
              @ '' have exhausted user patience. Immediate intervention needed to prevent churn.'')"

subsection \<open>\<open>calculate_churn\<close>\<close>

definition calculate_churn ::
  "ChurnCalculator \<Rightarrow> frustration_event list \<Rightarrow> churn_context \<Rightarrow> real \<Rightarrow> error + ChurnAnalysis" where
  "calculate_churn c events context ai_context_adjustment =
     (let base = base_churn_risk (user c);
          event_details = map (event_risk c) events
      in case trigger_details (frustration_triggers (user c)) events of
           Inl err \<Rightarrow> Inl err
         | Inr trigger_ds \<Rightarrow>
            (let details = event_details @ trigger_ds;
                 frustration_risk = sum_list (map risk_added details);
                 formula = base + frustration_risk;
                 calculated = formula * calc_patience_multiplier c;
                 adjs = parse_ai_adjustments context ai_context_adjustment;
                 final_churn = min (calculated + ai_context_adjustment) 100.0
             in Inr \<lparr>base_risk = base,
                     frustration_events = details,
                     formula_risk = formula,
                     patience_multiplier = calc_patience_multiplier c,
                     calculated_risk = calculated,
                     ai_adjustments = adjs,
                     final_churn_probability = final_churn,
                     risk_level = get_risk_level final_churn,
                     reasoning = generate_reasoning final_churn details adjs\<rparr>))"


subsection \<open>The caller's use of the probability (usersim/app/services/scenario\_simulator.py)\<close>

text \<open>
  \<open>_simulate_decision_step\<close> builds its \<open>JourneyStep\<close> with
  \<open>frustration_level=min(final_churn_probability / 10, 10)\<close>, a field validated to lie in
  0..10.
\<close>

definition decision_step_frustration_level :: "real \<Rightarrow> error + real" where
  "decision_step_frustration_level final_churn =
     (let level = min (final_churn / 10) 10
      in if 0 \<le> level \<and> level \<le> 10 then Inr level else Inl ValidationError)"



section \<open>Python string operations used by the prioritization code\<close>

text \<open>
  Texts are taken to be ASCII: \<open>str.lower()\<close> (defined above) changes the letters A to Z only,
  and \<open>str.split()\<close> splits at the ASCII white space characters.
\<close>

definition is_space :: "char \<Rightarrow> bool" where
  "is_space c = (let n = (of_char c :: nat) in (9 \<le> n \<and> n \<le> 13) \<or> (28 \<le> n \<and> n \<le> 32))"

text \<open>\<open>s.split()\<close>: the maximal runs of characters that are not white space.\<close>

fun split_from :: "string \<Rightarrow> string \<Rightarrow> string list" where
  "split_from cur [] = (if cur = [] then [] else [cur])"
| "split_from cur (c # cs) =
     (if is_space c then (if cur = [] then split_from [] cs else cur # split_from [] cs)
      else split_from (cur @ [c]) cs)"

definition split :: "string \<Rightarrow> string list" where
  "split s = split_from [] s"

text \<open>\<open>' '.join(xs)\<close>\<close>

fun join_spaces :: "string list \<Rightarrow> string" where
  "join_spaces [] = []"
| "join_spaces [x] = x"
| "join_spaces (x # y # ys) = x @ '' '' @ join_spaces (y # ys)"

definition starts_with :: "string \<Rightarrow> string \<Rightarrow> bool" where
  "starts_with s w = (take (length w) s = w)"

text \<open>\<open>w in s\<close> on strings: \<open>w\<close> occurs in \<open>s\<close> as a contiguous substring.\<close>

fun contains :: "string \<Rightarrow> string \<Rightarrow> bool" where
  "contains [] w = (w = [])"
| "contains (c # cs) w = (starts_with (c # cs) w \<or> contains cs w)"

text \<open>\<open>int(x)\<close> on a float: truncation towards zero.\<close>

definition py_int :: "real \<Rightarrow> int" where
  "py_int x = (if x \<ge> 0 then \<lfloor>x\<rfloor> else \<lceil>x\<rceil>)"


section \<open>Market sizing (app/services/market\_sizing.py)\<close>

record market_info =
  market_size_usd :: int
  growth_rate :: string
  active_users :: int
  tam_description :: string
  sources :: "string list"

definition MARKET_DATA :: "(string \<times> market_info) list" where
  "MARKET_DATA =
    [(''cab_booking'',
        \<lparr>market_size_usd = 22250000000, growth_rate = ''7.89% CAGR'', active_users = 50000000,
         tam_description = ''India Taxi Market'',
         sources = [''Mordor Intelligence India Taxi Market Report 2025'']\<rparr>),
     (''qcommerce'',
        \<lparr>market_size_usd = 5380000000, growth_rate = ''16.07% CAGR'', active_users = 25000000,
         tam_description = ''India Quick Commerce Market'',
         sources = [''Market Research Reports 2025'']\<rparr>),
     (''ecommerce'',
        \<lparr>market_size_usd = 85000000000, growth_rate = ''18% CAGR'', active_users = 200000000,
         tam_description = ''India E-commerce Market'',
         sources = [''Industry Reports 2025'']\<rparr>),
     (''fintech'',
        \<lparr>market_size_usd = 150000000000, growth_rate = ''22% CAGR'', active_users = 300000000,
         tam_description = ''India Fintech Market'',
         sources = [''Fintech Market Analysis 2025'']\<rparr>),
     (''food_delivery'',
        \<lparr>market_size_usd = 15000000000, growth_rate = ''25% CAGR'', active_users = 80000000,
         tam_description = ''India Food Delivery Market'',
         sources = [''Food Tech Market Reports 2025'']\<rparr>),
     (''developer_tools'',
        \<lparr>market_size_usd = 5000000000, growth_rate = ''20% CAGR'', active_users = 5000000,
         tam_description = ''India Developer Tools Market'',
         sources = [''Tech Industry Reports 2025'']\<rparr>),
     (''default'',
        \<lparr>market_size_usd = 10000000000, growth_rate = ''15% CAGR'', active_users = 50000000,
         tam_description = ''Indian Consumer Market'',
         sources = [''Market Estimates'']\<rparr>)]"

definition MARKET_DATA_default :: market_info where
  "MARKET_DATA_default =
     \<lparr>market_size_usd = 10000000000, growth_rate = ''15% CAGR'', active_users = 50000000,
      tam_description = ''Indian Consumer Market'', sources = [''Market Estimates'']\<rparr>"

definition category_keywords :: "(string \<times> string list) list" where
  "category_keywords =
    [(''cab_booking'', [''cab'', ''taxi'', ''uber'', ''ola'', ''rapido'', ''ride'', ''booking'', ''transport'']),
     (''qcommerce'', [''qcommerce'', ''quick commerce'', ''grocery'', ''zepto'', ''blinkit'', ''instamart'',
                      ''delivery'', ''instant'']),
     (''ecommerce'', [''ecommerce'', ''shopping'', ''online shopping'', ''amazon'', ''flipkart'', ''meesho'']),
     (''fintech'', [''payment'', ''wallet'', ''upi'', ''banking'', ''loan'', ''credit'', ''paytm'', ''phonepe'']),
     (''food_delivery'', [''food delivery'', ''swiggy'', ''zomato'', ''restaurant'', ''order food'']),
     (''developer_tools'', [''api'', ''developer'', ''coding'', ''programming'', ''kubernetes'', ''deployment'',
                            ''devops'', ''cloud''])]"

text \<open>The first category, in declaration order, one of whose keywords occurs in the text.\<close>

fun first_category :: "(string \<times> string list) list \<Rightarrow> string \<Rightarrow> string" where
  "first_category [] text = ''default''"
| "first_category ((category, keywords) # rest) text =
     (if list_ex (contains text) keywords then category else first_category rest text)"

definition identify_market_category :: "string \<Rightarrow> string \<Rightarrow> string" where
  "identify_market_category problem_statement target_users =
     first_category category_keywords (lower (problem_statement @ '' '' @ target_users))"

definition base_rate :: "int \<Rightarrow> real" where
  "base_rate frequency =
     (if frequency \<ge> 10 then 0.40 else if frequency \<ge> 5 then 0.30
      else if frequency \<ge> 3 then 0.20 else 0.10)"

definition comment_multiplier :: "int \<Rightarrow> real" where
  "comment_multiplier num_comments =
     (if num_comments \<ge> 100 then 1.2 else if num_comments \<ge> 50 then 1.1
      else if num_comments \<ge> 20 then 1.0 else 0.8)"

definition severity_multiplier :: "string \<Rightarrow> real" where
  "severity_multiplier severity = dict_get [(''High'', 1.2), (''Medium'', 1.0), (''Low'', 0.7)] severity 1.0"

definition calculate_penetration_rate :: "int \<Rightarrow> int \<Rightarrow> string \<Rightarrow> real" where
  "calculate_penetration_rate frequency num_comments severity =
     (let penetration = base_rate frequency * comment_multiplier num_comments * severity_multiplier severity
      in min penetration 0.50)"

text \<open>
  \<open>estimate_reach\<close> returns the reach and a justification text; the text is a formatted
  report of the same numbers and is left out here.
\<close>

definition estimate_reach :: "string \<Rightarrow> string \<Rightarrow> int \<Rightarrow> int \<Rightarrow> string \<Rightarrow> int" where
  "estimate_reach problem_statement target_users frequency num_comments severity =
     (let category = identify_market_category problem_statement target_users;
          market = dict_get MARKET_DATA category MARKET_DATA_default;
          base_users = active_users market;
          penetration_rate = calculate_penetration_rate frequency num_comments severity
      in py_int (real_of_int base_users * penetration_rate))"



section \<open>The reasoning collaborator and its JSON replies\<close>

text \<open>
  The language-model client, \<open>json.loads\<close> and \<open>float\<close> on a string are not part of the
  repository. A call of the client either raises or returns a text; the two library
  functions are parameters (\<open>None\<close>: the function raises).
\<close>

datatype json = JNull | JBool bool | JNum real | JStr string | JArr "json list" | JObj "(string \<times> json) list"

datatype llm_reply = Raises | Text string

record pylib =
  json_loads :: "string \<Rightarrow> json option"
  float_of_str :: "string \<Rightarrow> real option"

text \<open>\<open>s.find(c)\<close> and \<open>s.rfind(c)\<close> for a single character: the index, or -1.\<close>

fun find_char :: "char \<Rightarrow> string \<Rightarrow> int" where
  "find_char c [] = -1"
| "find_char c (x # xs) =
     (if x = c then 0 else (let r = find_char c xs in if r < 0 then -1 else r + 1))"

definition rfind_char :: "char \<Rightarrow> string \<Rightarrow> int" where
  "rfind_char c s = (let r = find_char c (rev s) in if r < 0 then -1 else int (length s) - 1 - r)"

text \<open>\<open>s[a:b]\<close>: a negative index counts from the end, and both ends are clipped to the string.\<close>

definition py_slice :: "string \<Rightarrow> int \<Rightarrow> int \<Rightarrow> string" where
  "py_slice s a b =
     (let n = int (length s);
          lo = (if a < 0 then max (a + n) 0 else min a n);
          hi = (if b < 0 then max (b + n) 0 else min b n)
      in take (nat (hi - lo)) (drop (nat lo) s))"

text \<open>The text between the first opening and the last closing brace, as both parsers cut it out.\<close>

definition extract_json :: "string \<Rightarrow> string" where
  "extract_json response_text =
     (let start_idx = find_char CHR ''{'' response_text;
          end_idx = rfind_char CHR ''}'' response_text + 1
      in py_slice response_text start_idx end_idx)"

text \<open>A JSON value used as a number: Python's bool is an int. \<open>None\<close> stands for TypeError.\<close>

fun json_num :: "json \<Rightarrow> real option" where
  "json_num (JNum r) = Some r"
| "json_num (JBool b) = Some (if b then 1 else 0)"
| "json_num _ = None"

text \<open>\<open>float(v)\<close>\<close>

fun py_float :: "pylib \<Rightarrow> json \<Rightarrow> real option" where
  "py_float lib (JStr s) = float_of_str lib s"
| "py_float lib v = json_num v"

text \<open>A value given to a pydantic \<open>str\<close> field.\<close>

fun as_str :: "json \<Rightarrow> string option" where
  "as_str (JStr s) = Some s"
| "as_str _ = None"


section \<open>Prioritization models (app/models/prioritization.py)\<close>

datatype OpportunityCategory = UNDERSERVED | OVERSERVED | WELLSERVED

record JTBDScore =
  job_statement :: string
  importance :: real
  satisfaction :: real
  opportunity_score :: real
  category :: OpportunityCategory
  jtbd_reasoning :: string

text \<open>The texts \<open>reach_justification\<close>, \<open>impact_reasoning\<close> and \<open>confidence_basis\<close> are left out.\<close>

record RICEScore =
  reach :: int
  impact :: real
  confidence :: real
  effort :: real
  effort_breakdown :: "(string \<times> real) list"
  rice_score :: real

record PersonaAlignment =
  affected_personas :: "string list"
  coverage :: real
  affinities :: "(string \<times> string) list"
  weight :: real

text \<open>The \<open>justification\<close> (evidence texts and market data) is left out.\<close>

record PrioritizedPainPoint =
  pain_point_id :: string
  description :: string
  original_severity :: string
  priority_rank :: int
  final_score :: real
  jtbd :: JTBDScore
  rice :: RICEScore
  persona_alignment :: PersonaAlignment

text \<open>The input dicts: a pain point and a persona, each key optional.\<close>

record pain_point =
  pp_description :: "string option"
  pp_quote :: "string option"
  pp_severity :: "string option"
  pp_frequency :: "int option"

record persona =
  persona_name :: "string option"
  persona_pain_points :: "string list option"
  behaviors :: "string list option"
  goals :: "string list option"

text \<open>\<open>OpportunityCategory(value)\<close>: the member with that value, or ValueError.\<close>

fun to_category :: "json \<Rightarrow> OpportunityCategory option" where
  "to_category (JStr s) =
     (if s = ''underserved'' then Some UNDERSERVED
      else if s = ''overserved'' then Some OVERSERVED
      else if s = ''wellserved'' then Some WELLSERVED
      else None)"
| "to_category _ = None"


section \<open>Prioritization service (app/services/prioritization\_service.py)\<close>

subsection \<open>JTBD scoring\<close>

text \<open>
  The body of the \<open>try\<close> after \<open>json.loads\<close>: the conversions and the construction of the
  \<open>JTBDScore\<close>, whose validators bound importance and satisfaction to 0..10. \<open>None\<close>: one
  of them raised.
\<close>

definition jtbd_from_data :: "pylib \<Rightarrow> (string \<times> json) list \<Rightarrow> JTBDScore option" where
  "jtbd_from_data lib data =
     (case as_str (dict_get data ''job_statement'' (JStr '''')) of None \<Rightarrow> None | Some js \<Rightarrow>
      case py_float lib (dict_get data ''importance'' (JNum 5.0)) of None \<Rightarrow> None | Some imp \<Rightarrow>
      case py_float lib (dict_get data ''satisfaction'' (JNum 5.0)) of None \<Rightarrow> None | Some sat \<Rightarrow>
      case py_float lib (dict_get data ''opportunity_score'' (JNum 10.0)) of None \<Rightarrow> None | Some opp \<Rightarrow>
      case to_category (dict_get data ''category'' (JStr ''wellserved'')) of None \<Rightarrow> None | Some cat \<Rightarrow>
      case as_str (dict_get data ''reasoning'' (JStr '''')) of None \<Rightarrow> None | Some rs \<Rightarrow>
      if 0 \<le> imp \<and> imp \<le> 10 \<and> 0 \<le> sat \<and> sat \<le> 10
      then Some \<lparr>job_statement = js, importance = imp, satisfaction = sat, opportunity_score = opp,
                 category = cat, jtbd_reasoning = rs\<rparr>
      else None)"

definition jtbd_default :: "pain_point \<Rightarrow> JTBDScore" where
  "jtbd_default p =
     \<lparr>job_statement = ''When users face '' @ opt_get (pp_description p) '''' @ '', they want a solution'',
      importance = 7.0, satisfaction = 3.0, opportunity_score = 11.0, category = UNDERSERVED,
      jtbd_reasoning = ''Default scoring due to parsing error''\<rparr>"

text \<open>The call of the client is outside the \<open>try\<close>: when it raises, so does the function.\<close>

definition calculate_jtbd_score :: "pylib \<Rightarrow> llm_reply \<Rightarrow> pain_point \<Rightarrow> error + JTBDScore" where
  "calculate_jtbd_score lib reply p =
     (case reply of
        Raises \<Rightarrow> Inl ApiError
      | Text response_text \<Rightarrow>
          (case json_loads lib (extract_json response_text) of
             Some (JObj data) \<Rightarrow>
               (case jtbd_from_data lib data of
                  Some score \<Rightarrow> Inr score
                | None \<Rightarrow> Inr (jtbd_default p))
           | _ \<Rightarrow> Inr (jtbd_default p)))"

subsection \<open>RICE scoring\<close>

definition blocking_words :: "string list" where
  "blocking_words = [''can't'', ''unable'', ''impossible'', ''blocks'', ''prevents'', ''stuck'']"

definition estimate_impact :: "string \<Rightarrow> real \<Rightarrow> string \<Rightarrow> real" where
  "estimate_impact severity importance_v quote =
     (let base_impact = dict_get [(''High'', 2.0), (''Medium'', 1.0), (''Low'', 0.5)] severity 1.0;
          importance_multiplier = (if importance_v \<ge> 9.0 then 1.5
                                   else if importance_v \<ge> 7.0 then 1.2 else 1.0);
          quote_multiplier = (if list_ex (contains (lower quote)) blocking_words then 1.2 else 1.0);
          impact_v = base_impact * importance_multiplier * quote_multiplier
      in min (max impact_v 0.25) 3.0)"

definition estimate_confidence :: "int \<Rightarrow> int \<Rightarrow> string \<Rightarrow> real" where
  "estimate_confidence frequency num_sources severity =
     (let freq_conf = (if frequency \<ge> 10 then 0.95 else if frequency \<ge> 5 then 0.85
                       else if frequency \<ge> 3 then 0.75 else 0.60);
          source_multiplier = min (real_of_int num_sources / 3.0) 1.0;
          severity_boost = (if severity = ''High'' then 0.05 else 0.0);
          confidence_v = (freq_conf * source_multiplier) + severity_boost
      in min confidence_v 1.0)"

definition effort_default :: "json \<times> (string \<times> real) list" where
  "effort_default =
     (JNum 2.0, [(''UI/Frontend'', 0.5), (''Backend/API'', 1.0), (''Infrastructure'', 0.3),
                 (''Testing & QA'', 0.2)])"

text \<open>
  \<open>_estimate_effort\<close>: here the call of the client is inside the \<open>try\<close>. The sum of the
  breakdown is computed before \<open>total_effort\<close> is looked up (it is the argument of
  \<open>get\<close>), so a breakdown value that is not a number sends the function to its default.
  The total itself is returned as the reply has it, whatever its type.
\<close>

definition estimate_effort :: "pylib \<Rightarrow> llm_reply \<Rightarrow> json \<times> (string \<times> real) list" where
  "estimate_effort lib reply =
     (case reply of
        Raises \<Rightarrow> effort_default
      | Text response_text \<Rightarrow>
          (case json_loads lib (extract_json response_text) of
             Some (JObj data) \<Rightarrow>
               (case (json_num (dict_get data ''ui_frontend'' (JNum 0.5)),
                      json_num (dict_get data ''backend_api'' (JNum 1.0)),
                      json_num (dict_get data ''infrastructure'' (JNum 0.3)),
                      json_num (dict_get data ''testing_qa'' (JNum 0.3))) of
                  (Some ui, Some be, Some infra, Some qa) \<Rightarrow>
                    (dict_get data ''total_effort'' (JNum (0 + ui + be + infra + qa)),
                     [(''UI/Frontend'', ui), (''Backend/API'', be), (''Infrastructure'', infra),
                      (''Testing & QA'', qa)])
                | _ \<Rightarrow> effort_default)
           | _ \<Rightarrow> effort_default))"

text \<open>Python's \<open>a / b\<close> on numbers.\<close>

definition py_truediv :: "real \<Rightarrow> real \<Rightarrow> error + real" where
  "py_truediv a b = (if b = 0 then Inl ZeroDivisionError else Inr (a / b))"

text \<open>Line 243: \<open>(reach * impact * confidence) / effort if effort > 0 else 0\<close>.\<close>

definition rice_score_value :: "int \<Rightarrow> real \<Rightarrow> real \<Rightarrow> real \<Rightarrow> error + real" where
  "rice_score_value reach_v impact_v confidence_v effort_v =
     (if effort_v > 0 then py_truediv (real_of_int reach_v * impact_v * confidence_v) effort_v
      else Inr 0)"

text \<open>The validators of \<open>RICEScore\<close>: reach at least 0, confidence in 0..1, effort above 0.\<close>

definition RICEScore_validate :: "RICEScore \<Rightarrow> error + RICEScore" where
  "RICEScore_validate r =
     (if reach r \<ge> 0 \<and> 0 \<le> confidence r \<and> confidence r \<le> 1 \<and> effort r > 0 then Inr r
      else Inl ValidationError)"

definition calculate_rice_score ::
  "pylib \<Rightarrow> llm_reply \<Rightarrow> pain_point \<Rightarrow> string \<Rightarrow> string \<Rightarrow> JTBDScore \<Rightarrow> error + RICEScore" where
  "calculate_rice_score lib effort_reply p problem_statement target_users jtbd_score =
     (let frequency = opt_get (pp_frequency p) 1;
          severity = opt_get (pp_severity p) ''Medium'';
          num_comments = 50;
          reach_v = estimate_reach problem_statement target_users frequency num_comments severity;
          impact_v = estimate_impact severity (importance jtbd_score) (opt_get (pp_quote p) '''');
          confidence_v = estimate_confidence frequency 2 severity;
          (effort_j, breakdown) = estimate_effort lib effort_reply
      in case json_num effort_j of
           None \<Rightarrow> Inl TypeError
         | Some effort_v \<Rightarrow>
            (case rice_score_value reach_v impact_v confidence_v effort_v of
               Inl err \<Rightarrow> Inl err
             | Inr score \<Rightarrow>
                 RICEScore_validate
                   \<lparr>reach = reach_v, impact = impact_v, confidence = confidence_v, effort = effort_v,
                    effort_breakdown = breakdown, rice_score = score\<rparr>))"



subsection \<open>Persona alignment\<close>

text \<open>\<open>d[k] = v\<close> on an insertion-ordered dict: an existing key keeps its place.\<close>

fun dict_set :: "('k \<times> 'v) list \<Rightarrow> 'k \<Rightarrow> 'v \<Rightarrow> ('k \<times> 'v) list" where
  "dict_set [] k v = [(k, v)]"
| "dict_set ((k', v') # rest) k v = (if k' = k then (k, v) # rest else (k', v') # dict_set rest k v)"

definition match_count :: "string \<Rightarrow> persona \<Rightarrow> nat" where
  "match_count description_lower p =
     length (filter (\<lambda>pp. list_ex (contains description_lower) (take 5 (split (lower pp))))
               (opt_get (persona_pain_points p) []))"

text \<open>The affinity of one persona, and whether the persona is appended to \<open>affected\<close>.\<close>

definition persona_affinity :: "string \<Rightarrow> persona \<Rightarrow> string \<times> bool" where
  "persona_affinity description_lower p =
     (if match_count description_lower p \<ge> 2 then (''VERY HIGH'', True)
      else if match_count description_lower p \<ge> 1 then (''HIGH'', True)
      else (let behaviors_text = lower (join_spaces (opt_get (behaviors p) []));
                goals_text = lower (join_spaces (opt_get (goals p) []))
            in if list_ex (\<lambda>word. contains behaviors_text word \<or> contains goals_text word)
                    (take 5 (split description_lower))
               then (''MEDIUM'', True)
               else (''LOW'', False)))"

fun alignment_loop ::
  "string \<Rightarrow> persona list \<Rightarrow> string list \<times> (string \<times> string) list
     \<Rightarrow> string list \<times> (string \<times> string) list" where
  "alignment_loop description_lower [] acc = acc"
| "alignment_loop description_lower (p # ps) (affected, affs) =
     (let name = opt_get (persona_name p) ''Unknown'';
          (affinity, hit) = persona_affinity description_lower p
      in alignment_loop description_lower ps
           (if hit then affected @ [name] else affected, dict_set affs name affinity))"

definition affinity_scores :: "(string \<times> int) list" where
  "affinity_scores = [(''VERY HIGH'', 10), (''HIGH'', 7), (''MEDIUM'', 4), (''LOW'', 1)]"

definition calculate_persona_alignment :: "pain_point \<Rightarrow> persona list \<Rightarrow> PersonaAlignment" where
  "calculate_persona_alignment p personas =
     (if personas = []
      then \<lparr>affected_personas = [], coverage = 0.0, affinities = [], weight = 0.0\<rparr>
      else
        (let description_lower = lower (opt_get (pp_description p) '''');
             (affected, affs) = alignment_loop description_lower personas ([], []);
             coverage_v = real (length affected) / real (length personas);
             total_weight = sum_list (map (\<lambda>aff. dict_get affinity_scores aff 0) (map snd affs));
             weight_v = real_of_int total_weight / real (length personas)
         in \<lparr>affected_personas = affected, coverage = coverage_v, affinities = affs,
             weight = weight_v\<rparr>))"

subsection \<open>Final score\<close>

text \<open>\<open>round(x, 2)\<close>: to the nearest multiple of 0.01, a tie going to the even one.\<close>

definition round_half_even :: "real \<Rightarrow> int" where
  "round_half_even y =
     (let f = \<lfloor>y\<rfloor>; d = y - real_of_int f
      in if d < 1/2 then f else if d > 1/2 then f + 1 else if even f then f else f + 1)"

definition round2 :: "real \<Rightarrow> real" where
  "round2 x = real_of_int (round_half_even (x * 100)) / 100"

definition calculate_final_score :: "JTBDScore \<Rightarrow> RICEScore \<Rightarrow> PersonaAlignment \<Rightarrow> real" where
  "calculate_final_score jtbd_score rice_v alignment =
     (let jtbd_normalized = (opportunity_score jtbd_score / 20.0) * 100;
          rice_normalized = min (log 10 (max (rice_score rice_v) 1) * 20) 100;
          persona_normalized = (weight alignment / 10.0) * 100;
          final = (jtbd_normalized * 0.4) + (rice_normalized * 0.4) + (persona_normalized * 0.2)
      in round2 final)"

subsection \<open>\<open>prioritize_pain_points\<close>\<close>

text \<open>The decimal digits of an index, for the identifier \<open>pp_<idx>\<close>.\<close>

function digits_of :: "nat \<Rightarrow> string" where
  "digits_of n =
     (if n < 10 then [char_of (48 + n)]
      else digits_of (n div 10) @ [char_of (48 + n mod 10)])"
  by pat_completeness auto
termination
  by (relation "measure (\<lambda>n. n)") auto

declare digits_of.simps [simp del]

definition str_of_nat :: "nat \<Rightarrow> string" where
  "str_of_nat n = digits_of n"

text \<open>
  The collaborator is called twice for each pain point; \<open>jtbd_reply idx\<close> and
  \<open>effort_reply idx\<close> are what the two calls for the pain point at index \<open>idx\<close> give.
\<close>

definition analyse ::
  "pylib \<Rightarrow> (nat \<Rightarrow> llm_reply) \<Rightarrow> (nat \<Rightarrow> llm_reply) \<Rightarrow> persona list \<Rightarrow> string \<Rightarrow> string
     \<Rightarrow> nat \<Rightarrow> pain_point \<Rightarrow> error + PrioritizedPainPoint" where
  "analyse lib jtbd_reply effort_reply personas problem_statement target_users idx p =
     (case calculate_jtbd_score lib (jtbd_reply idx) p of
        Inl err \<Rightarrow> Inl err
      | Inr jtbd_score \<Rightarrow>
         (case calculate_rice_score lib (effort_reply idx) p problem_statement target_users jtbd_score of
            Inl err \<Rightarrow> Inl err
          | Inr rice_v \<Rightarrow>
             (let alignment = calculate_persona_alignment p personas;
                  final = calculate_final_score jtbd_score rice_v alignment
              in Inr \<lparr>pain_point_id = ''pp_'' @ str_of_nat idx,
                      description = opt_get (pp_description p) '''',
                      original_severity = opt_get (pp_severity p) ''Medium'',
                      priority_rank = 0,
                      final_score = final,
                      jtbd = jtbd_score,
                      rice = rice_v,
                      persona_alignment = alignment\<rparr>)))"

text \<open>The loop over \<open>enumerate(pain_points)\<close>; the first exception ends it.\<close>

fun analyse_all ::
  "(nat \<Rightarrow> pain_point \<Rightarrow> error + PrioritizedPainPoint) \<Rightarrow> nat \<Rightarrow> pain_point list
     \<Rightarrow> error + PrioritizedPainPoint list" where
  "analyse_all f idx [] = Inr []"
| "analyse_all f idx (p # ps) =
     (case f idx p of
        Inl err \<Rightarrow> Inl err
      | Inr x \<Rightarrow> (case analyse_all f (Suc idx) ps of Inl err \<Rightarrow> Inl err | Inr xs \<Rightarrow> Inr (x # xs)))"

text \<open>
  \<open>prioritized.sort(key=lambda x: x.final_score, reverse=True)\<close>: the library's sort is
  stable, also with \<open>reverse=True\<close>, so it is the stable sort on the negated key.
\<close>

definition sort_by_final_score_desc :: "PrioritizedPainPoint list \<Rightarrow> PrioritizedPainPoint list" where
  "sort_by_final_score_desc xs = sort_key (\<lambda>x. - final_score x) xs"

text \<open>\<open>for rank, pp in enumerate(prioritized, 1): pp.priority_rank = rank\<close>\<close>

fun assign_ranks :: "int \<Rightarrow> PrioritizedPainPoint list \<Rightarrow> PrioritizedPainPoint list" where
  "assign_ranks rank [] = []"
| "assign_ranks rank (x # xs) = x\<lparr>priority_rank := rank\<rparr> # assign_ranks (rank + 1) xs"

definition prioritize_pain_points ::
  "pylib \<Rightarrow> (nat \<Rightarrow> llm_reply) \<Rightarrow> (nat \<Rightarrow> llm_reply) \<Rightarrow> pain_point list \<Rightarrow> persona list
     \<Rightarrow> string \<Rightarrow> string \<Rightarrow> error + PrioritizedPainPoint list" where
  "prioritize_pain_points lib jtbd_reply effort_reply pain_points personas problem_statement target_users =
     (if pain_points = [] then Inr []
      else
        (case analyse_all (analyse lib jtbd_reply effort_reply personas problem_statement target_users)
                0 pain_points of
           Inl err \<Rightarrow> Inl err
         | Inr prioritized \<Rightarrow> Inr (assign_ranks 1 (sort_by_final_score_desc prioritized))))"



section \<open>The spec's formulas, written from its words for comparison\<close>

definition spec_opportunity_score :: "real \<Rightarrow> real \<Rightarrow> real" where
  "spec_opportunity_score i s = i + max (i - s) 0"

definition spec_category :: "real \<Rightarrow> OpportunityCategory" where
  "spec_category score =
     (if score > 10 then UNDERSERVED else if score \<ge> 8 then WELLSERVED else OVERSERVED)"

definition spec_final_score :: "real \<Rightarrow> real \<Rightarrow> real \<Rightarrow> real" where
  "spec_final_score opp rice_v w =
     0.4 * (opp / 20 * 100) + 0.4 * min (log 10 (max rice_v 1) * 20) 100 + 0.2 * (w / 10 * 100)"

text \<open>The spec's \<open>clamp(x, lo, hi)\<close>, written from the spec's words for comparison.\<close>

definition spec_clamp :: "real \<Rightarrow> real \<Rightarrow> real \<Rightarrow> real" where
  "spec_clamp x lo hi = max lo (min x hi)"


section \<open>Notions used in the statements\<close>




text \<open>A prioritized pain point as it is before the ranks are assigned.\<close>

definition unranked :: "PrioritizedPainPoint \<Rightarrow> PrioritizedPainPoint" where
  "unranked x = x\<lparr>priority_rank := 0\<rparr>"

text \<open>
  A sample reply of the collaborator to the JTBD prompt, and library functions that decode it
  as \<open>json.loads\<close> does (and fail on every other text).
\<close>

definition sample_jtbd_json :: string where
  \<open>sample_jtbd_json =
     ''{"importance": 5, "satisfaction": 5, "opportunity_score": 15, "category": "overserved"}''\<close>

definition sample_jtbd_text :: string where
  "sample_jtbd_text = ''Here is the analysis: '' @ sample_jtbd_json @ '' Done.''"

definition sample_lib :: pylib where
  "sample_lib =
     \<lparr>json_loads = (\<lambda>s. if s = sample_jtbd_json
                         then Some (JObj [(''importance'', JNum 5), (''satisfaction'', JNum 5),
                                          (''opportunity_score'', JNum 15),
                                          (''category'', JStr ''overserved'')])
                         else None),
      float_of_str = (\<lambda>s. None)\<rparr>"



text \<open>
  A JTBD reply object is rejected when one of the conversions raises (a job statement or
  reasoning that is not a string, a category that is no member of the enum, a score that
  \<open>float\<close> does not accept) or a validator of \<open>JTBDScore\<close> fails (importance or
  satisfaction outside 0..10).
\<close>

definition reply_rejected :: "pylib \<Rightarrow> (string \<times> json) list \<Rightarrow> bool" where
  "reply_rejected lib data =
     (as_str (dict_get data ''job_statement'' (JStr '''')) = None
      \<or> as_str (dict_get data ''reasoning'' (JStr '''')) = None
      \<or> to_category (dict_get data ''category'' (JStr ''wellserved'')) = None
      \<or> py_float lib (dict_get data ''opportunity_score'' (JNum 10)) = None
      \<or> (case py_float lib (dict_get data ''importance'' (JNum 5)) of
            None \<Rightarrow> True | Some imp \<Rightarrow> imp < 0 \<or> 10 < imp)
      \<or> (case py_float lib (dict_get data ''satisfaction'' (JNum 5)) of
            None \<Rightarrow> True | Some sat \<Rightarrow> sat < 0 \<or> 10 < sat))"

text \<open>
  A sample reply of the collaborator to the effort prompt, with a total effort of 0, and
  library functions that decode it as \<open>json.loads\<close> does.
\<close>

definition sample_effort_json :: string where
  \<open>sample_effort_json =
     ''{"total_effort": 0, "rationale": "Already covered by the current release"}''\<close>

definition sample_effort_text :: string where
  "sample_effort_text = ''Estimate: '' @ sample_effort_json"

definition sample_effort_lib :: pylib where
  "sample_effort_lib =
     \<lparr>json_loads = (\<lambda>s. if s = sample_effort_json
                         then Some (JObj [(''total_effort'', JNum 0),
                                          (''rationale'', JStr ''Already covered by the current release'')])
                         else None),
      float_of_str = (\<lambda>s. None)\<rparr>"


section \<open>Properties of the churn calculator\<close>

lemma add_custom_frustration_weight_lookup:
  "dict_get (add_custom_frustration_weight table n w) n d = w"
  by (simp add: add_custom_frustration_weight_def dict_get_def)

lemma ChurnCalculator_init_at: "ChurnCalculator_init u = ChurnCalculator_at FRUSTRATION_WEIGHTS u"
  by (simp add: ChurnCalculator_init_def ChurnCalculator_at_def)

lemma trigger_details_no_match:
  "\<forall>t\<in>set ts. trigger t \<noteq> n \<Longrightarrow>
   trigger_details ts [\<lparr>ev_event = Some n, ev_severity = s\<rparr>] = Inr []"
  by (induction ts) auto

lemma risk_level_fifty: "get_risk_level 50 = ''MEDIUM''"
  by (simp add: get_risk_level_def RISK_LEVELS_def)

text \<open>The analysis is returned whenever every event carries the key "event".\<close>

lemma trigger_hit_returns:
  "\<forall>e\<in>set es. ev_event e \<noteq> None \<Longrightarrow> \<exists>b. trigger_hit t es = Inr b"
  by (induction es) (auto split: option.splits)

lemma trigger_details_returns:
  "\<forall>e\<in>set es. ev_event e \<noteq> None \<Longrightarrow> \<exists>ds. trigger_details ts es = Inr ds"
proof (induction ts)
  case Nil
  then show ?case by simp
next
  case (Cons t ts)
  from trigger_hit_returns [OF Cons.prems] obtain b where "trigger_hit (trigger t) es = Inr b"
    by blast
  moreover from Cons.IH [OF Cons.prems] obtain ds where "trigger_details ts es = Inr ds"
    by blast
  ultimately show ?case by simp
qed

lemma calculate_churn_returns:
  "\<forall>e\<in>set events. ev_event e \<noteq> None \<Longrightarrow> \<exists>a. calculate_churn c events context adj = Inr a"
  using trigger_details_returns [of events "frustration_triggers (user c)"]
  by (auto simp: calculate_churn_def Let_def)

text \<open>What the band table computes, on every probability and on the whole numbers.\<close>

lemma risk_level_bands:
  "get_risk_level p =
     (if 0 \<le> p \<and> p \<le> 30 then ''LOW'' else if 31 \<le> p \<and> p \<le> 50 then ''MEDIUM''
      else if 51 \<le> p \<and> p \<le> 75 then ''HIGH'' else ''CRITICAL'')"
  by (simp add: get_risk_level_def RISK_LEVELS_def)

lemma risk_level_on_integers:
  "0 \<le> n \<Longrightarrow> n \<le> 100 \<Longrightarrow>
   get_risk_level (real_of_int n) =
     (if n \<le> 30 then ''LOW'' else if n \<le> 50 then ''MEDIUM''
      else if n \<le> 75 then ''HIGH'' else ''CRITICAL'')"
  by (auto simp: get_risk_level_def RISK_LEVELS_def)

text \<open>The sunk-cost factor, first in the list whenever time was invested.\<close>

lemma sunk_cost_factor:
  "0 < t \<Longrightarrow>
   hd (parse_ai_adjustments
         \<lparr>time_invested_seconds = Some t, urgency = u, alternatives_available = a,
          failure_count = f\<rparr> tot)
   = \<lparr>factor = ''sunk_cost_effect'', adjustment = min (-10) (- (t / 60) * 3)\<rparr>"
  by (simp add: parse_ai_adjustments_def opt_get_def Let_def)

text \<open>
  C1 (the code at the failing input). For a user with base risk 10 and high patience, no
  events, an empty context and the supplied adjustment -50 (inside the documented range
  -50..+50), the calculated risk is 10 and the returned final_churn_probability is -40:
  below 0, where clamp(10 + (-50), 0, 100) is 0. The same analysis carries the risk level
  CRITICAL and a reasoning text that starts "Low churn risk".
\<close>

theorem C1_final_churn_negative:
  "calculate_churn
     (ChurnCalculator_init \<lparr>patience_level = HIGH, frustration_triggers = [], base_churn_risk = 10\<rparr>)
     []
     \<lparr>time_invested_seconds = None, urgency = None, alternatives_available = None,
      failure_count = None\<rparr>
     (-50)
   = Inr \<lparr>base_risk = 10, frustration_events = [], formula_risk = 10, patience_multiplier = 1,
          calculated_risk = 10,
          ai_adjustments = [\<lparr>factor = ''first_failure'', adjustment = -5\<rparr>,
                            \<lparr>factor = ''other_context'', adjustment = -45\<rparr>],
          final_churn_probability = -40, risk_level = ''CRITICAL'',
          reasoning = ''Low churn risk. User is experiencing general friction but first_failure keeps them engaged.''\<rparr>
   \<and> spec_clamp (10 + (-50)) 0 100 = 0"
  by (simp add: calculate_churn_def ChurnCalculator_init_def dict_get_def opt_get_def
      PATIENCE_MULTIPLIERS_def parse_ai_adjustments_def get_risk_level_def RISK_LEVELS_def
      generate_reasoning_def spec_clamp_def Let_def)

text \<open>
  The decision step that receives a negative probability cannot build its journey step;
  with a probability in [0,100] it can.
\<close>

lemma negative_probability_rejected_by_decision_step:
  "decision_step_frustration_level (-40) = Inl ValidationError"
  by (simp add: decision_step_frustration_level_def Let_def)

lemma decision_step_accepts_bounded_probability:
  "0 \<le> p \<Longrightarrow> \<exists>level. decision_step_frustration_level p = Inr level"
  by (simp add: decision_step_frustration_level_def Let_def)

text \<open>
  What the code does bound: the result is the sum capped at 100 from above, and it agrees
  with the clamp as long as the sum is not negative.
\<close>

lemma final_churn_upper_cap:
  assumes "calculate_churn c events context adj = Inr a"
  shows "final_churn_probability a = min (calculated_risk a + adj) 100
       \<and> final_churn_probability a \<le> 100
       \<and> (0 \<le> calculated_risk a + adj \<longrightarrow>
            final_churn_probability a = spec_clamp (calculated_risk a + adj) 0 100)"
proof -
  from assms have fin: "final_churn_probability a = min (calculated_risk a + adj) 100"
    by (auto simp: calculate_churn_def Let_def split: sum.splits)
  then show ?thesis
    by (simp add: spec_clamp_def)
qed

lemma title_slow_response: "title (underscores_to_spaces ''slow_response'') = ''Slow Response''"
  by code_simp

text \<open>
  C2 (the code at the failing input). The bands are stored with whole-number bounds
  (0..30, 31..50, 51..75, 76..100, each inclusive), so a probability strictly between two
  bands matches none and falls through to the default CRITICAL. A user with base risk 10
  and high patience, the single event slow_response (weight 15) with severity 1.375 and no
  adjustment has final_churn_probability 30.625; the analysis carries risk_level CRITICAL,
  where the claim says MEDIUM (and where its own reasoning text says "Medium churn risk").
  Likewise 30.01 and 50.5 are CRITICAL; on the boundary values 30, 50, 75 and 100 the code
  agrees with the claim.
\<close>

theorem C2_risk_level_gap:
  "calculate_churn
     (ChurnCalculator_init \<lparr>patience_level = HIGH, frustration_triggers = [], base_churn_risk = 10\<rparr>)
     [\<lparr>ev_event = Some ''slow_response'', ev_severity = Some 1.375\<rparr>]
     \<lparr>time_invested_seconds = None, urgency = None, alternatives_available = None,
      failure_count = None\<rparr>
     0
   = Inr \<lparr>base_risk = 10,
          frustration_events = [\<lparr>event = ''slow_response'', risk_added = 20.625\<rparr>],
          formula_risk = 30.625, patience_multiplier = 1, calculated_risk = 30.625,
          ai_adjustments = [\<lparr>factor = ''first_failure'', adjustment = -5\<rparr>,
                            \<lparr>factor = ''other_context'', adjustment = 5\<rparr>],
          final_churn_probability = 30.625, risk_level = ''CRITICAL'',
          reasoning = ''Medium churn risk. Slow Response is causing frustration. User will likely try one more alternative before giving up completely.''\<rparr>
   \<and> get_risk_level 30.01 = ''CRITICAL'' \<and> get_risk_level 50.5 = ''CRITICAL''
   \<and> get_risk_level 30 = ''LOW'' \<and> get_risk_level 50 = ''MEDIUM''
   \<and> get_risk_level 75 = ''HIGH'' \<and> get_risk_level 100 = ''CRITICAL''"
  by (simp add: calculate_churn_def ChurnCalculator_init_def dict_get_def opt_get_def
      event_risk_def PATIENCE_MULTIPLIERS_def FRUSTRATION_WEIGHTS_def parse_ai_adjustments_def
      get_risk_level_def RISK_LEVELS_def generate_reasoning_def title_slow_response Let_def)

text \<open>
  C4 (the code at the failing inputs). With 600 seconds invested (and nothing else in the
  context, total adjustment 0) the sunk-cost factor is min(-10, -30) = -30, below -10; with
  60 seconds it is min(-10, -3) = -10, not -3. The code takes the minimum with -10, which
  bounds the term from above, not from below.
\<close>

theorem C4_sunk_cost_below_minus_ten:
  "parse_ai_adjustments
     \<lparr>time_invested_seconds = Some 600, urgency = None, alternatives_available = None,
      failure_count = None\<rparr> 0
   = [\<lparr>factor = ''sunk_cost_effect'', adjustment = -30\<rparr>,
      \<lparr>factor = ''first_failure'', adjustment = -5\<rparr>,
      \<lparr>factor = ''other_context'', adjustment = 35\<rparr>]
   \<and> parse_ai_adjustments
     \<lparr>time_invested_seconds = Some 60, urgency = None, alternatives_available = None,
      failure_count = None\<rparr> 0
   = [\<lparr>factor = ''sunk_cost_effect'', adjustment = -10\<rparr>,
      \<lparr>factor = ''first_failure'', adjustment = -5\<rparr>,
      \<lparr>factor = ''other_context'', adjustment = 15\<rparr>]"
  by (simp add: parse_ai_adjustments_def opt_get_def Let_def)

text \<open>
  C6. For every user with base_churn_risk 10, medium patience and no frustration trigger
  named long_wait, every context, the single event long_wait with severity 1.0 and the
  supplied adjustment -10, a calculator with the built-in weight table returns an analysis
  with patience multiplier 1.5, formula_risk 40, calculated_risk 60,
  final_churn_probability 50 and risk_level MEDIUM.
\<close>

theorem C6_churn_example:
  assumes base: "base_churn_risk u = 10"
      and pat: "patience_level u = MEDIUM"
      and trig: "\<forall>t\<in>set (frustration_triggers u). trigger t \<noteq> ''long_wait''"
  shows "\<exists>a. calculate_churn (ChurnCalculator_init u)
                [\<lparr>ev_event = Some ''long_wait'', ev_severity = Some 1.0\<rparr>] context (-10) = Inr a
             \<and> patience_multiplier a = 1.5
             \<and> formula_risk a = 40
             \<and> calculated_risk a = 60
             \<and> final_churn_probability a = 50
             \<and> risk_level a = ''MEDIUM''"
proof -
  note td = trigger_details_no_match [OF trig]
  have w: "dict_get FRUSTRATION_WEIGHTS ''long_wait'' d = 30" for d
    by (simp add: dict_get_def FRUSTRATION_WEIGHTS_def)
  have m: "dict_get PATIENCE_MULTIPLIERS MEDIUM d = 3 / 2" for d
    by (simp add: dict_get_def PATIENCE_MULTIPLIERS_def)
  show ?thesis
    by (simp add: calculate_churn_def ChurnCalculator_init_def event_risk_def opt_get_def
        td w m base pat risk_level_fifty Let_def)
qed

theorem C6_churn_example_witness:
  "\<exists>a. calculate_churn
         (ChurnCalculator_init
            \<lparr>patience_level = MEDIUM,
             frustration_triggers = [\<lparr>trigger = ''price_increase'', threshold = 5, trigger_impact = 20\<rparr>],
             base_churn_risk = 10\<rparr>)
         [\<lparr>ev_event = Some ''long_wait'', ev_severity = Some 1.0\<rparr>]
         \<lparr>time_invested_seconds = Some 120, urgency = Some ''high'', alternatives_available = None,
          failure_count = None\<rparr>
         (-10) = Inr a
       \<and> patience_multiplier a = 1.5 \<and> formula_risk a = 40 \<and> calculated_risk a = 60
       \<and> final_churn_probability a = 50 \<and> risk_level a = ''MEDIUM''"
  using C6_churn_example
    [of "\<lparr>patience_level = MEDIUM,
          frustration_triggers = [\<lparr>trigger = ''price_increase'', threshold = 5, trigger_impact = 20\<rparr>],
          base_churn_risk = 10\<rparr>"
        "\<lparr>time_invested_seconds = Some 120, urgency = Some ''high'', alternatives_available = None,
          failure_count = None\<rparr>"]
  by simp


section \<open>Properties of the market reach estimator\<close>

lemma base_rate_mono: "f1 \<le> f2 \<Longrightarrow> base_rate f1 \<le> base_rate f2"
  by (simp add: base_rate_def)

lemma base_rate_pos: "0 < base_rate f"
  by (simp add: base_rate_def)

lemma comment_multiplier_pos: "0 < comment_multiplier c"
  by (simp add: comment_multiplier_def)

lemma severity_multiplier_pos: "0 < severity_multiplier s"
  by (simp add: severity_multiplier_def dict_get_def)

lemma penetration_rate_nonneg: "0 \<le> calculate_penetration_rate f c s"
  using base_rate_pos [of f] comment_multiplier_pos [of c] severity_multiplier_pos [of s]
  by (simp add: calculate_penetration_rate_def Let_def)

lemma active_users_nonneg: "0 \<le> active_users (dict_get MARKET_DATA c MARKET_DATA_default)"
  by (simp add: dict_get_def MARKET_DATA_def MARKET_DATA_default_def)

lemma estimate_reach_nonneg: "0 \<le> estimate_reach ps tu f n sev"
  using active_users_nonneg penetration_rate_nonneg
  by (simp add: estimate_reach_def py_int_def Let_def)

text \<open>
  C7. For every frequency, comment volume and severity the penetration rate is
  base_rate(frequency) * comment_multiplier(comment_volume) * severity_multiplier(severity)
  capped at 0.50, hence never above 0.50, and a larger frequency never gives a smaller rate
  when the comment volume and the severity are the same. (The category is not an input of
  the rate.)
\<close>

theorem C7_penetration_rate:
  "calculate_penetration_rate f c s
     = min (base_rate f * comment_multiplier c * severity_multiplier s) 0.50
   \<and> calculate_penetration_rate f c s \<le> 0.50
   \<and> (f \<le> f' \<longrightarrow> calculate_penetration_rate f c s \<le> calculate_penetration_rate f' c s)"
proof -
  have mono: "base_rate f * comment_multiplier c * severity_multiplier s
        \<le> base_rate f' * comment_multiplier c * severity_multiplier s" if "f \<le> f'"
    using base_rate_mono [OF that] comment_multiplier_pos [of c] severity_multiplier_pos [of s]
    by (simp add: mult_right_mono)
  show ?thesis
    using mono by (auto simp: calculate_penetration_rate_def Let_def min_def)
qed

theorem C7_penetration_rate_witness:
  "(2::int) \<le> 3 \<and> (3::int) \<le> 5 \<and> (5::int) \<le> 10
   \<and> calculate_penetration_rate 2 50 ''High'' \<le> calculate_penetration_rate 3 50 ''High''
   \<and> calculate_penetration_rate 3 50 ''High'' \<le> calculate_penetration_rate 5 50 ''High''
   \<and> calculate_penetration_rate 5 50 ''High'' \<le> calculate_penetration_rate 10 50 ''High''
   \<and> calculate_penetration_rate 10 50 ''High'' \<le> 0.50"
  using C7_penetration_rate [of 2 50 "''High''" 3]
        C7_penetration_rate [of 3 50 "''High''" 5]
        C7_penetration_rate [of 5 50 "''High''" 10]
        C7_penetration_rate [of 10 50 "''High''" 10]
  by simp


section \<open>Properties of RICE scoring\<close>

lemma estimate_confidence_bounds:
  "0 \<le> estimate_confidence f 2 s \<and> estimate_confidence f 2 s \<le> 1"
  by (simp add: estimate_confidence_def Let_def)

text \<open>
  The record is built after the score: with an effort that is not above 0 the score is 0,
  and the validator of \<open>RICEScore.effort\<close> then rejects the record.
\<close>

lemma calculate_rice_score_rejects_nonpositive_effort:
  assumes "json_num (fst (estimate_effort lib reply)) = Some e" and "e \<le> 0"
  shows "calculate_rice_score lib reply p ps tu j = Inl ValidationError"
  using assms
  by (cases "estimate_effort lib reply")
     (simp add: calculate_rice_score_def rice_score_value_def RICEScore_validate_def Let_def)

text \<open>
  What holds of the two pieces on their own: the impact is always in [0.25, 3.0], and the
  expression on line 243 is 0 for an effort of at most 0, the quotient otherwise, and never
  a division by zero.
\<close>

lemma impact_bounds:
  "0.25 \<le> estimate_impact severity imp quote \<and> estimate_impact severity imp quote \<le> 3.0"
  by (simp add: estimate_impact_def Let_def)

lemma rice_score_value_cases:
  "rice_score_value r i c e = (if e > 0 then Inr (real_of_int r * i * c / e) else Inr 0)"
  by (simp add: rice_score_value_def py_truediv_def)

text \<open>
  What holds of every record \<open>_calculate_rice_score\<close> returns: its effort is above 0, its
  score is the quotient, and its impact is in [0.25, 3.0].
\<close>

lemma calculate_rice_score_returned:
  assumes "calculate_rice_score lib reply p ps tu j = Inr r"
  shows "0 < effort r
       \<and> rice_score r = real_of_int (reach r) * impact r * confidence r / effort r
       \<and> 0.25 \<le> impact r \<and> impact r \<le> 3.0
       \<and> json_num (fst (estimate_effort lib reply)) = Some (effort r)"
proof -
  obtain ej bd where eff: "estimate_effort lib reply = (ej, bd)"
    by (cases "estimate_effort lib reply")
  from assms eff show ?thesis
    using impact_bounds
    by (auto simp: calculate_rice_score_def rice_score_value_def py_truediv_def
        RICEScore_validate_def Let_def split: option.splits if_splits sum.splits)
qed

lemma extract_effort_sample: "extract_json sample_effort_text = sample_effort_json"
  by (simp add: sample_effort_text_def sample_effort_json_def extract_json_def rfind_char_def
      py_slice_def Let_def)

lemma sample_effort:
  "estimate_effort sample_effort_lib (Text sample_effort_text)
   = (JNum 0, [(''UI/Frontend'', 0.5), (''Backend/API'', 1.0), (''Infrastructure'', 0.3),
               (''Testing & QA'', 0.3)])"
  by (simp add: estimate_effort_def extract_effort_sample sample_effort_lib_def dict_get_def)

text \<open>
  C8 (the code at the failing input). The collaborator's effort reply carries
  total_effort 0. \<open>_estimate_effort\<close> hands the 0 on, the expression on line 243 takes its
  guarded branch and yields the score 0 without dividing, but the \<open>RICEScore\<close> record is
  then built with effort 0 against its validator effort > 0: \<open>_calculate_rice_score\<close> ends in
  a validation error instead of a RICE score of 0, and so does \<open>prioritize_pain_points\<close> for
  a list holding this pain point.
\<close>

theorem C8_zero_effort_raises:
  "estimate_effort sample_effort_lib (Text sample_effort_text)
     = (JNum 0, [(''UI/Frontend'', 0.5), (''Backend/API'', 1.0), (''Infrastructure'', 0.3),
                 (''Testing & QA'', 0.3)])
   \<and> rice_score_value 13200000 2.4 0.55 0 = Inr 0
   \<and> calculate_rice_score sample_effort_lib (Text sample_effort_text)
        \<lparr>pp_description = Some ''Slow checkout'', pp_quote = None, pp_severity = Some ''High'',
         pp_frequency = Some 3\<rparr>
        ''cab booking'' ''commuters''
        \<lparr>job_statement = ''When users face Slow checkout, they want a solution'',
         importance = 7, satisfaction = 3, opportunity_score = 11, category = UNDERSERVED,
         jtbd_reasoning = ''Default scoring due to parsing error''\<rparr>
      = Inl ValidationError
   \<and> prioritize_pain_points sample_effort_lib (\<lambda>i. Text ''no json'') (\<lambda>i. Text sample_effort_text)
        [\<lparr>pp_description = Some ''Slow checkout'', pp_quote = None, pp_severity = Some ''High'',
          pp_frequency = Some 3\<rparr>]
        [] ''cab booking'' ''commuters''
      = Inl ValidationError"
proof -
  have r: "calculate_rice_score sample_effort_lib (Text sample_effort_text) p ps tu j
            = Inl ValidationError" for p ps tu j
    by (rule calculate_rice_score_rejects_nonpositive_effort [where e = 0])
       (simp_all add: sample_effort)
  have j: "\<exists>s. calculate_jtbd_score sample_effort_lib (Text ''no json'') q = Inr s" for q
    by (simp add: calculate_jtbd_score_def split: option.splits json.splits)
  have p: "prioritize_pain_points sample_effort_lib (\<lambda>i. Text ''no json'')
             (\<lambda>i. Text sample_effort_text) [q] [] ps tu = Inl ValidationError" for q ps tu
    using j [of q] by (auto simp: prioritize_pain_points_def analyse_def r)
  show ?thesis
    by (simp add: sample_effort r p rice_score_value_def)
qed


section \<open>Properties of the final score\<close>

lemma round_half_even_close: "\<bar>real_of_int (round_half_even y) - y\<bar> \<le> 1/2"
  unfolding round_half_even_def Let_def by (auto; linarith)

lemma round2_close: "\<bar>round2 x - x\<bar> \<le> 1/200"
  using round_half_even_close [of "x * 100"] by (simp add: round2_def field_simps)

text \<open>
  C5. For every JTBD score, RICE score and persona alignment the final score is the value
  0.4 * (opportunity_score / 20 * 100) + 0.4 * min(log10(max(rice_score, 1)) * 20, 100)
  + 0.2 * (weight / 10 * 100) rounded to 2 decimal places: it is round(., 2) of that value,
  a whole number of hundredths, and at most 0.005 away from it.
\<close>

theorem C5_final_score:
  "calculate_final_score j r a
     = round2 (spec_final_score (opportunity_score j) (rice_score r) (weight a))
   \<and> (\<exists>k::int. calculate_final_score j r a = real_of_int k / 100)
   \<and> \<bar>calculate_final_score j r a
        - spec_final_score (opportunity_score j) (rice_score r) (weight a)\<bar> \<le> 0.005"
proof -
  have eq: "calculate_final_score j r a
     = round2 (spec_final_score (opportunity_score j) (rice_score r) (weight a))"
    by (simp add: calculate_final_score_def spec_final_score_def Let_def mult.commute)
  have "\<exists>k::int. round2 x = real_of_int k / 100" for x
    unfolding round2_def by blast
  moreover have "\<bar>round2 x - x\<bar> \<le> 0.005" for x
    using round2_close [of x] by simp
  ultimately show ?thesis
    unfolding eq by blast
qed



section \<open>Properties of the persona alignment\<close>


















section \<open>Properties of JTBD scoring\<close>

lemma extract_sample: "extract_json sample_jtbd_text = sample_jtbd_json"
  by (simp add: sample_jtbd_text_def sample_jtbd_json_def extract_json_def rfind_char_def
      py_slice_def Let_def)

lemma calculate_jtbd_score_returns: "\<exists>s. calculate_jtbd_score lib (Text t) p = Inr s"
  by (simp add: calculate_jtbd_score_def split: option.splits json.splits)

text \<open>
  C3 (as stated, refuted). The collaborator replies with importance 5, satisfaction 5,
  opportunity_score 15 and category "overserved". The reply parses and passes the
  validators, and the stored score is the reply's 15 with category overserved, where
  importance + max(importance - satisfaction, 0) is 5 and a score of 15 is underserved.
\<close>

theorem C3_collaborator_values_echoed:
  "calculate_jtbd_score sample_lib (Text sample_jtbd_text)
     \<lparr>pp_description = Some ''Slow checkout'', pp_quote = None, pp_severity = None,
      pp_frequency = None\<rparr>
   = Inr \<lparr>job_statement = '''', importance = 5, satisfaction = 5, opportunity_score = 15,
          category = OVERSERVED, jtbd_reasoning = ''''\<rparr>
   \<and> spec_opportunity_score 5 5 = 5
   \<and> spec_category 15 = UNDERSERVED"
  by (simp add: calculate_jtbd_score_def extract_sample sample_lib_def jtbd_from_data_def
      dict_get_def spec_opportunity_score_def spec_category_def)

lemma jtbd_from_data_accepts:
  assumes "as_str (dict_get data ''job_statement'' (JStr '''')) = Some js"
      and "py_float lib (dict_get data ''importance'' (JNum 5)) = Some imp"
      and "py_float lib (dict_get data ''satisfaction'' (JNum 5)) = Some sat"
      and "py_float lib (dict_get data ''opportunity_score'' (JNum 10)) = Some opp"
      and "to_category (dict_get data ''category'' (JStr ''wellserved'')) = Some cat"
      and "as_str (dict_get data ''reasoning'' (JStr '''')) = Some rs"
      and "0 \<le> imp" "imp \<le> 10" "0 \<le> sat" "sat \<le> 10"
  shows "jtbd_from_data lib data =
     Some \<lparr>job_statement = js, importance = imp, satisfaction = sat, opportunity_score = opp,
           category = cat, jtbd_reasoning = rs\<rparr>"
  using assms by (simp add: jtbd_from_data_def)

lemma jtbd_from_data_None_iff: "jtbd_from_data lib data = None \<longleftrightarrow> reply_rejected lib data"
  by (auto simp: reply_rejected_def jtbd_from_data_def split: option.splits)

text \<open>The two cases of the theorem below leave no reply object out.\<close>

lemma reply_accepted_or_rejected:
  "reply_rejected lib data
   \<or> (\<exists>js imp sat opp cat rs.
         as_str (dict_get data ''job_statement'' (JStr '''')) = Some js
       \<and> py_float lib (dict_get data ''importance'' (JNum 5)) = Some imp
       \<and> py_float lib (dict_get data ''satisfaction'' (JNum 5)) = Some sat
       \<and> py_float lib (dict_get data ''opportunity_score'' (JNum 10)) = Some opp
       \<and> to_category (dict_get data ''category'' (JStr ''wellserved'')) = Some cat
       \<and> as_str (dict_get data ''reasoning'' (JStr '''')) = Some rs
       \<and> 0 \<le> imp \<and> imp \<le> 10 \<and> 0 \<le> sat \<and> sat \<le> 10)"
  by (auto simp: reply_rejected_def split: option.splits)

text \<open>
  C3 (amended). Whenever the collaborator returns a text: if the reply parses to an object
  and passes the conversions and validators (job statement and reasoning are strings,
  importance, satisfaction and opportunity_score convert to floats, the category names a
  member of the enum, importance and satisfaction lie in [0,10]; absent keys take the
  defaults 5.0, 5.0, 10.0, wellserved and the empty string), then the step returns exactly
  the reply's values: the stored opportunity_score and category are the collaborator's own,
  taken over without recomputation. If the reply does not parse to an object, or it is
  rejected by a conversion or a validator, the step returns the fixed default (importance 7,
  satisfaction 3, score 11, underserved), for which
  opportunity_score = importance + max(importance - satisfaction, 0) and the category
  matches the score by the thresholds.
\<close>

theorem C3_jtbd_score_echo_or_default:
  "(json_loads lib (extract_json t) = Some (JObj data)
      \<and> as_str (dict_get data ''job_statement'' (JStr '''')) = Some js
      \<and> py_float lib (dict_get data ''importance'' (JNum 5)) = Some imp
      \<and> py_float lib (dict_get data ''satisfaction'' (JNum 5)) = Some sat
      \<and> py_float lib (dict_get data ''opportunity_score'' (JNum 10)) = Some opp
      \<and> to_category (dict_get data ''category'' (JStr ''wellserved'')) = Some cat
      \<and> as_str (dict_get data ''reasoning'' (JStr '''')) = Some rs
      \<and> 0 \<le> imp \<and> imp \<le> 10 \<and> 0 \<le> sat \<and> sat \<le> 10
    \<longrightarrow> calculate_jtbd_score lib (Text t) p =
          Inr \<lparr>job_statement = js, importance = imp, satisfaction = sat, opportunity_score = opp,
                category = cat, jtbd_reasoning = rs\<rparr>)
   \<and> ((\<forall>d. json_loads lib (extract_json t) \<noteq> Some (JObj d))
        \<or> (json_loads lib (extract_json t) = Some (JObj data) \<and> reply_rejected lib data)
    \<longrightarrow> calculate_jtbd_score lib (Text t) p = Inr (jtbd_default p))
   \<and> importance (jtbd_default p) = 7 \<and> satisfaction (jtbd_default p) = 3
   \<and> opportunity_score (jtbd_default p) = 11 \<and> category (jtbd_default p) = UNDERSERVED
   \<and> opportunity_score (jtbd_default p)
        = spec_opportunity_score (importance (jtbd_default p)) (satisfaction (jtbd_default p))
   \<and> category (jtbd_default p) = spec_category (opportunity_score (jtbd_default p))"
proof -
  have a: "calculate_jtbd_score lib (Text t) p =
          Inr \<lparr>job_statement = js, importance = imp, satisfaction = sat, opportunity_score = opp,
                category = cat, jtbd_reasoning = rs\<rparr>"
    if "json_loads lib (extract_json t) = Some (JObj data)"
      and "as_str (dict_get data ''job_statement'' (JStr '''')) = Some js"
      and "py_float lib (dict_get data ''importance'' (JNum 5)) = Some imp"
      and "py_float lib (dict_get data ''satisfaction'' (JNum 5)) = Some sat"
      and "py_float lib (dict_get data ''opportunity_score'' (JNum 10)) = Some opp"
      and "to_category (dict_get data ''category'' (JStr ''wellserved'')) = Some cat"
      and "as_str (dict_get data ''reasoning'' (JStr '''')) = Some rs"
      and "0 \<le> imp" "imp \<le> 10" "0 \<le> sat" "sat \<le> 10"
    using that(1) jtbd_from_data_accepts [OF that(2-)]
    by (simp add: calculate_jtbd_score_def)
  have b: "calculate_jtbd_score lib (Text t) p = Inr (jtbd_default p)"
    if "\<forall>d. json_loads lib (extract_json t) \<noteq> Some (JObj d)"
    using that by (auto simp: calculate_jtbd_score_def split: option.splits json.splits)
  have c: "calculate_jtbd_score lib (Text t) p = Inr (jtbd_default p)"
    if "json_loads lib (extract_json t) = Some (JObj data)" "reply_rejected lib data"
  proof -
    from that(2) have "jtbd_from_data lib data = None"
      by (simp add: jtbd_from_data_None_iff)
    with that(1) show ?thesis by (simp add: calculate_jtbd_score_def)
  qed
  have d: "importance (jtbd_default p) = 7 \<and> satisfaction (jtbd_default p) = 3
   \<and> opportunity_score (jtbd_default p) = 11 \<and> category (jtbd_default p) = UNDERSERVED
   \<and> opportunity_score (jtbd_default p)
        = spec_opportunity_score (importance (jtbd_default p)) (satisfaction (jtbd_default p))
   \<and> category (jtbd_default p) = spec_category (opportunity_score (jtbd_default p))"
    by (simp add: jtbd_default_def spec_opportunity_score_def spec_category_def)
  from a b c d show ?thesis by blast
qed

theorem C3_jtbd_score_echo_or_default_witness:
  "calculate_jtbd_score sample_lib (Text sample_jtbd_text)
     \<lparr>pp_description = Some ''Slow checkout'', pp_quote = None, pp_severity = None,
      pp_frequency = None\<rparr>
   = Inr \<lparr>job_statement = '''', importance = 5, satisfaction = 5, opportunity_score = 15,
          category = OVERSERVED, jtbd_reasoning = ''''\<rparr>
   \<and> calculate_jtbd_score sample_lib (Text ''I cannot answer that.'')
     \<lparr>pp_description = Some ''Slow checkout'', pp_quote = None, pp_severity = None,
      pp_frequency = None\<rparr>
   = Inr (jtbd_default \<lparr>pp_description = Some ''Slow checkout'', pp_quote = None,
                        pp_severity = None, pp_frequency = None\<rparr>)
   \<and> calculate_jtbd_score
       \<lparr>json_loads = (\<lambda>s. Some (JObj [(''importance'', JNum 11), (''opportunity_score'', JNum 17)])),
        float_of_str = (\<lambda>s. None)\<rparr>
       (Text ''{}'')
     \<lparr>pp_description = Some ''Slow checkout'', pp_quote = None, pp_severity = None,
      pp_frequency = None\<rparr>
   = Inr (jtbd_default \<lparr>pp_description = Some ''Slow checkout'', pp_quote = None,
                        pp_severity = None, pp_frequency = None\<rparr>)"
proof -
  let ?p = "\<lparr>pp_description = Some ''Slow checkout'', pp_quote = None, pp_severity = None,
             pp_frequency = None\<rparr>"
  let ?d1 = "[(''importance'', JNum 5), (''satisfaction'', JNum 5),
              (''opportunity_score'', JNum 15), (''category'', JStr ''overserved'')]"
  let ?d3 = "[(''importance'', JNum 11), (''opportunity_score'', JNum 17)]"
  let ?lib3 = "\<lparr>json_loads = (\<lambda>s. Some (JObj ?d3)), float_of_str = (\<lambda>s. None)\<rparr>"
  have h1: "json_loads sample_lib (extract_json sample_jtbd_text) = Some (JObj ?d1)"
    by (simp add: extract_sample sample_lib_def)
  have h2: "\<forall>d. json_loads sample_lib (extract_json ''I cannot answer that.'') \<noteq> Some (JObj d)"
    by (simp add: sample_lib_def sample_jtbd_json_def extract_json_def rfind_char_def
        py_slice_def Let_def)
  have h3: "json_loads ?lib3 (extract_json ''{}'') = Some (JObj ?d3) \<and> reply_rejected ?lib3 ?d3"
    by (simp add: reply_rejected_def dict_get_def)
  from C3_jtbd_score_echo_or_default
         [of sample_lib sample_jtbd_text ?d1 "''''" 5 5 15 OVERSERVED "''''" ?p] h1
  have r1: "calculate_jtbd_score sample_lib (Text sample_jtbd_text) ?p
   = Inr \<lparr>job_statement = '''', importance = 5, satisfaction = 5, opportunity_score = 15,
          category = OVERSERVED, jtbd_reasoning = ''''\<rparr>"
    by (simp add: dict_get_def)
  from C3_jtbd_score_echo_or_default [of sample_lib "''I cannot answer that.''" _ _ _ _ _ _ _ ?p] h2
  have r2: "calculate_jtbd_score sample_lib (Text ''I cannot answer that.'') ?p = Inr (jtbd_default ?p)"
    by blast
  from C3_jtbd_score_echo_or_default [of ?lib3 "''{}''" ?d3 _ _ _ _ _ _ ?p] h3
  have r3: "calculate_jtbd_score ?lib3 (Text ''{}'') ?p = Inr (jtbd_default ?p)"
    by blast
  from r1 r2 r3 show ?thesis by simp
qed


section \<open>Properties of the ranking\<close>

lemma assign_ranks_length: "length (assign_ranks r xs) = length xs"
  by (induction xs arbitrary: r) auto

lemma assign_ranks_scores: "map final_score (assign_ranks r xs) = map final_score xs"
  by (induction xs arbitrary: r) auto

lemma assign_ranks_unranked: "map unranked (assign_ranks r xs) = map unranked xs"
  by (induction xs arbitrary: r) (auto simp: unranked_def)

lemma assign_ranks_ranks:
  "map priority_rank (assign_ranks r xs) = map (\<lambda>i. r + int i) [0..<length xs]"
proof (induction xs arbitrary: r)
  case Nil
  then show ?case by simp
next
  case (Cons x xs)
  have "map (\<lambda>i. r + int i) [0..<Suc (length xs)] = r # map (\<lambda>i. r + int (Suc i)) [0..<length xs]"
    by (simp add: upt_conv_Cons map_Suc_upt [symmetric] del: upt_Suc)
  then show ?case using Cons.IH [of "r + 1"] by (simp add: add.assoc add.commute del: upt_Suc)
qed

lemma ranks_from_one: "map (\<lambda>i. 1 + int i) [0..<n] = map int [1..<Suc n]"
  by (induction n) auto

lemma analyse_rank: "analyse lib jr er personas ps tu idx p = Inr x \<Longrightarrow> priority_rank x = 0"
  by (auto simp: analyse_def Let_def split: sum.splits)

lemma analyse_all_props:
  "analyse_all f idx pps = Inr xs \<Longrightarrow> (\<And>i p x. f i p = Inr x \<Longrightarrow> priority_rank x = 0) \<Longrightarrow>
   length xs = length pps \<and> map unranked xs = xs"
  by (induction pps arbitrary: idx xs) (auto simp: unranked_def split: sum.splits)

lemma analyse_all_returns:
  "(\<And>i p. \<exists>x. f i p = Inr x) \<Longrightarrow> \<exists>xs. analyse_all f idx pps = Inr xs"
proof (induction pps arbitrary: idx)
  case Nil
  then show ?case by simp
next
  case (Cons p pps)
  from Cons.prems obtain x where x: "f idx p = Inr x" by blast
  from Cons.IH [OF Cons.prems] obtain xs where "analyse_all f (Suc idx) pps = Inr xs" by blast
  with x show ?case by simp
qed

text \<open>
  One pain point is analysed without an exception when the JTBD call returns a text and the
  effort found for it is a number above 0: reach and confidence always pass their validators.
\<close>

lemma analyse_returns:
  assumes j: "jr idx = Text t"
      and e: "json_num (fst (estimate_effort lib (er idx))) = Some e" "0 < e"
  shows "\<exists>x. analyse lib jr er personas ps tu idx p = Inr x"
proof -
  from calculate_jtbd_score_returns obtain s where s: "calculate_jtbd_score lib (Text t) p = Inr s"
    by blast
  obtain ej bd where eff: "estimate_effort lib (er idx) = (ej, bd)"
    by (cases "estimate_effort lib (er idx)")
  have "\<exists>r. calculate_rice_score lib (er idx) p ps tu s = Inr r"
    using e eff estimate_reach_nonneg estimate_confidence_bounds
    by (simp add: calculate_rice_score_def rice_score_value_def py_truediv_def
        RICEScore_validate_def Let_def)
  then show ?thesis using s j by (auto simp: analyse_def Let_def)
qed

lemma sorted_desc_head:
  "sorted_wrt (\<ge>) (map f xs) \<Longrightarrow> xs \<noteq> [] \<Longrightarrow> \<forall>x\<in>set xs. (f x :: real) \<le> f (hd xs)"
  by (cases xs) auto

text \<open>
  C9. Whenever every pain point of the list is analysed without an exception (\<open>scored\<close> is
  the list of results in input order), the engine returns a list \<open>res\<close> of the same length
  with priority_rank 1..N in this order and final_score descending, so that rank 1 has the
  maximum score; apart from the ranks, the results with any one final score appear in
  \<open>res\<close> exactly as they do in input order (the sort is stable); and an empty input list
  gives the empty list.
\<close>

theorem C9_ranking:
  assumes scored: "analyse_all (analyse lib jr er personas ps tu) 0 pain_points = Inr scored"
  shows "\<exists>res. prioritize_pain_points lib jr er pain_points personas ps tu = Inr res
      \<and> length res = length pain_points
      \<and> map priority_rank res = map int [1..<Suc (length pain_points)]
      \<and> sorted_wrt (\<ge>) (map final_score res)
      \<and> (res \<noteq> [] \<longrightarrow> priority_rank (hd res) = 1
            \<and> (\<forall>x\<in>set scored. final_score x \<le> final_score (hd res)))
      \<and> (\<forall>s. filter (\<lambda>x. final_score x = s) (map unranked res)
              = filter (\<lambda>x. final_score x = s) scored)
      \<and> (pain_points = [] \<longrightarrow> res = [])"
proof -
  let ?sorted = "sort_by_final_score_desc scored"
  let ?res = "assign_ranks 1 ?sorted"
  from analyse_all_props [OF scored] analyse_rank
  have len: "length scored = length pain_points" and unr: "map unranked scored = scored"
    by blast+
  have run: "prioritize_pain_points lib jr er pain_points personas ps tu = Inr ?res"
  proof (cases "pain_points = []")
    case True
    with scored show ?thesis
      by (simp add: prioritize_pain_points_def sort_by_final_score_desc_def)
  next
    case False
    with scored show ?thesis by (simp add: prioritize_pain_points_def)
  qed
  have l: "length ?res = length pain_points"
    by (simp add: assign_ranks_length sort_by_final_score_desc_def len)
  have r: "map priority_rank ?res = map int [1..<Suc (length pain_points)]"
    by (simp add: assign_ranks_ranks ranks_from_one sort_by_final_score_desc_def len del: upt_Suc)
  have sd: "sorted_wrt (\<ge>) (map final_score ?sorted)"
    unfolding sort_by_final_score_desc_def
    using sorted_sort_key [of "\<lambda>x. - final_score x" scored] by (simp add: sorted_wrt_map)
  then have s: "sorted_wrt (\<ge>) (map final_score ?res)"
    by (simp add: assign_ranks_scores)
  have h: "priority_rank (hd ?res) = 1 \<and> (\<forall>x\<in>set scored. final_score x \<le> final_score (hd ?res))"
    if ne: "?res \<noteq> []"
  proof -
    from ne obtain y ys where ys: "?sorted = y # ys" by (cases ?sorted) auto
    then have hd_res: "hd ?res = y\<lparr>priority_rank := 1\<rparr>" by simp
    have "set ?sorted = set scored" by (simp add: sort_by_final_score_desc_def)
    moreover have "\<forall>x\<in>set ?sorted. final_score x \<le> final_score (hd ?sorted)"
      using sorted_desc_head [OF sd] ys by simp
    ultimately show ?thesis using ys by (simp add: hd_res)
  qed
  have st: "filter (\<lambda>x. final_score x = s) (map unranked ?res)
             = filter (\<lambda>x. final_score x = s) scored" for s
  proof -
    have fu: "filter (\<lambda>x. final_score x = s) (map unranked xs)
               = map unranked (filter (\<lambda>x. final_score x = s) xs)" for xs
      by (simp add: filter_map comp_def unranked_def)
    have "filter (\<lambda>x. final_score x = s) (map unranked ?res)
          = map unranked (filter (\<lambda>x. final_score x = s) ?sorted)"
      by (simp add: assign_ranks_unranked fu)
    also have "filter (\<lambda>x. final_score x = s) ?sorted = filter (\<lambda>x. final_score x = s) scored"
      using sort_key_stable [of "\<lambda>x. - final_score x" "- s" scored]
      by (simp add: sort_by_final_score_desc_def)
    also have "map unranked (filter (\<lambda>x. final_score x = s) scored)
                = filter (\<lambda>x. final_score x = s) (map unranked scored)"
      by (simp add: fu)
    finally show ?thesis by (simp add: unr)
  qed
  have e: "pain_points = [] \<longrightarrow> ?res = []"
    using len by (auto simp: sort_by_final_score_desc_def)
  from run l r s h st e show ?thesis by blast
qed



theorem C9_ranking_witness:
  "\<exists>res. prioritize_pain_points sample_lib (\<lambda>i. Text sample_jtbd_text) (\<lambda>i. Raises)
            [\<lparr>pp_description = Some ''Slow checkout'', pp_quote = None,
              pp_severity = Some ''High'', pp_frequency = Some 3\<rparr>,
             \<lparr>pp_description = Some ''Driver cancels'', pp_quote = None,
              pp_severity = Some ''High'', pp_frequency = Some 12\<rparr>]
            [] ''cab booking'' ''commuters'' = Inr res
       \<and> length res = 2
       \<and> map priority_rank res = [1, 2]
       \<and> sorted_wrt (\<ge>) (map final_score res)"
proof -
  let ?pps = "[\<lparr>pp_description = Some ''Slow checkout'', pp_quote = None,
                pp_severity = Some ''High'', pp_frequency = Some 3\<rparr>,
               \<lparr>pp_description = Some ''Driver cancels'', pp_quote = None,
                pp_severity = Some ''High'', pp_frequency = Some 12\<rparr>]"
  let ?f = "analyse sample_lib (\<lambda>i. Text sample_jtbd_text) (\<lambda>i. Raises) []
              ''cab booking'' ''commuters''"
  have eff: "json_num (fst (estimate_effort sample_lib Raises)) = Some 2"
    by (simp add: estimate_effort_def effort_default_def)
  have "\<exists>xs. analyse_all ?f 0 ?pps = Inr xs"
    by (rule analyse_all_returns)
       (rule analyse_returns [where t = sample_jtbd_text and e = 2], simp_all add: eff)
  then obtain scored where "analyse_all ?f 0 ?pps = Inr scored"
    by blast
  from C9_ranking [OF this] show ?thesis
    by (auto simp: upt_conv_Cons)
qed

text \<open>
  A run with a tie: two pain points that differ in their description only get the same
  final score, and keep their input order.
\<close>

lemma sample_category: "identify_market_category ''cab booking'' ''commuters'' = ''cab_booking''"
  by (simp add: identify_market_category_def category_keywords_def lower_def to_lower_def
      is_upper_def starts_with_def)

lemma sample_reach: "estimate_reach ''cab booking'' ''commuters'' 3 50 ''High'' = 13200000"
  by (simp add: estimate_reach_def sample_category dict_get_def MARKET_DATA_def
      calculate_penetration_rate_def base_rate_def comment_multiplier_def
      severity_multiplier_def py_int_def Let_def)

lemma digit_chars: "char_of (48::nat) = CHR ''0''" "char_of (49::nat) = CHR ''1''"
  by code_simp+

lemma ranking_tie_example:
  "map_sum id (map (\<lambda>x. (pain_point_id x, priority_rank x)))
     (prioritize_pain_points sample_lib (\<lambda>i. Text sample_jtbd_text) (\<lambda>i. Raises)
        [\<lparr>pp_description = Some ''Slow checkout'', pp_quote = None,
          pp_severity = Some ''High'', pp_frequency = Some 3\<rparr>,
         \<lparr>pp_description = Some ''Driver cancels'', pp_quote = None,
          pp_severity = Some ''High'', pp_frequency = Some 3\<rparr>]
        [] ''cab booking'' ''commuters'')
   = Inr [(''pp_0'', 1), (''pp_1'', 2)]"
  by (simp add: prioritize_pain_points_def analyse_def calculate_jtbd_score_def extract_sample
      sample_lib_def jtbd_from_data_def dict_get_def calculate_rice_score_def sample_reach
      opt_get_def estimate_effort_def effort_default_def rice_score_value_def py_truediv_def
      RICEScore_validate_def estimate_confidence_def estimate_impact_def blocking_words_def
      calculate_persona_alignment_def sort_by_final_score_desc_def str_of_nat_def
      digits_of.simps digit_chars Let_def)


end
